theory Spec2Isabelle
  imports Main
begin

section \<open>Animation: the render coalescer of \<open>_Browser_makeAnimator\<close>\<close>

text \<open>
  The three request constants \<open>__4_NO_REQUEST\<close>, \<open>__4_PENDING_REQUEST\<close> and
  \<open>__4_EXTRA_REQUEST\<close> of \<open>Browser.js\<close> are distinct compile-time constants.
\<close>

datatype request = NO_REQUEST | PENDING_REQUEST | EXTRA_REQUEST

text \<open>
  The closure built by \<open>_Browser_makeAnimator(model, draw)\<close> owns two variables,
  \<open>model\<close> and \<open>state\<close>. Its two effects are made explicit: \<open>outstanding\<close> counts
  the callbacks handed to \<open>_Browser_requestAnimationFrame\<close> that the host has not fired
  yet, and \<open>drawn\<close> lists the arguments of the calls of \<open>draw\<close>, oldest first.
\<close>

record 'm animator =
  model :: 'm
  state :: request
  outstanding :: nat
  drawn :: "'m list"

definition Browser_requestAnimationFrame :: "'m animator \<Rightarrow> 'm animator" where
  "Browser_requestAnimationFrame a = a\<lparr>outstanding := Suc (outstanding a)\<rparr>"

definition draw :: "'m animator \<Rightarrow> 'm animator" where
  "draw a = a\<lparr>drawn := drawn a @ [model a]\<rparr>"

text \<open>\<open>draw(model); var state = __4_NO_REQUEST;\<close>\<close>

definition Browser_makeAnimator :: "'m \<Rightarrow> 'm animator" where
  "Browser_makeAnimator m =
     \<lparr>model = m, state = NO_REQUEST, outstanding = 0, drawn = [m]\<rparr>"

text \<open>
  The body of \<open>updateIfNeeded\<close>: the conditional expression is evaluated first (on the
  else branch it requests a frame and draws), then its value is stored in \<open>state\<close>.
\<close>

definition updateIfNeeded :: "'m animator \<Rightarrow> 'm animator" where
  "updateIfNeeded a =
     (if state a = EXTRA_REQUEST
      then a\<lparr>state := NO_REQUEST\<rparr>
      else (draw (Browser_requestAnimationFrame a))\<lparr>state := EXTRA_REQUEST\<rparr>)"

text \<open>The function returned by \<open>_Browser_makeAnimator\<close>, called \<open>notify\<close> in the specification.\<close>

definition notify :: "'m \<Rightarrow> bool \<Rightarrow> 'm animator \<Rightarrow> 'm animator" where
  "notify nextModel isSync a =
     (let a1 = a\<lparr>model := nextModel\<rparr> in
      if isSync
      then (let a2 = draw a1 in
            if state a2 = PENDING_REQUEST then a2\<lparr>state := EXTRA_REQUEST\<rparr> else a2)
      else (let a2 = (if state a1 = NO_REQUEST then Browser_requestAnimationFrame a1 else a1)
            in a2\<lparr>state := PENDING_REQUEST\<rparr>))"

text \<open>
  The host fires a requested callback: the request stops being outstanding and
  \<open>updateIfNeeded\<close> runs. With no request outstanding there is nothing to fire.
\<close>

definition fire :: "'m animator \<Rightarrow> 'm animator option" where
  "fire a =
     (if outstanding a = 0 then None
      else Some (updateIfNeeded (a\<lparr>outstanding := outstanding a - 1\<rparr>)))"

datatype 'm trigger = Notify 'm bool | Frame

fun step :: "'m trigger \<Rightarrow> 'm animator \<Rightarrow> 'm animator option" where
  "step (Notify m isSync) a = Some (notify m isSync a)"
| "step Frame a = fire a"

fun run :: "'m trigger list \<Rightarrow> 'm animator \<Rightarrow> 'm animator option" where
  "run [] a = Some a"
| "run (e # es) a = (case step e a of None \<Rightarrow> None | Some a' \<Rightarrow> run es a')"

text \<open>The scheduling invariant: a frame is outstanding exactly when the state is not \<open>NO_REQUEST\<close>.\<close>

definition coalesced :: "'m animator \<Rightarrow> bool" where
  "coalesced a = (outstanding a = (if state a = NO_REQUEST then 0 else 1))"

lemma coalesced_makeAnimator: "coalesced (Browser_makeAnimator m)"
  by (simp add: coalesced_def Browser_makeAnimator_def)

lemma coalesced_notify: "coalesced a \<Longrightarrow> coalesced (notify m isSync a)"
  by (cases "state a")
     (simp_all add: coalesced_def notify_def draw_def Browser_requestAnimationFrame_def Let_def)

lemma coalesced_fire: "coalesced a \<Longrightarrow> fire a = Some a' \<Longrightarrow> coalesced a'"
  by (cases "state a")
     (auto simp add: coalesced_def fire_def updateIfNeeded_def draw_def
        Browser_requestAnimationFrame_def split: if_splits)

lemma coalesced_step: "coalesced a \<Longrightarrow> step e a = Some a' \<Longrightarrow> coalesced a'"
  by (cases e) (auto simp add: coalesced_notify coalesced_fire)

lemma coalesced_run: "coalesced a \<Longrightarrow> run es a = Some a' \<Longrightarrow> coalesced a'"
proof (induction es arbitrary: a)
  case Nil
  then show ?case by simp
next
  case (Cons e es)
  then obtain b where b: "step e a = Some b" and r: "run es b = Some a'"
    by (auto split: option.splits)
  from Cons.prems(1) b have "coalesced b" by (rule coalesced_step)
  with r show ?case by (rule Cons.IH[rotated])
qed

text \<open>
  C1, as the specification states it, fails on the code. A frame callback that fires
  while the state is \<open>EXTRA_REQUEST\<close> (here after the request that fired has left the
  outstanding count) requests no further frame and draws nothing, and it sets the state to
  \<open>NO_REQUEST\<close>; a callback that fires in state \<open>PENDING_REQUEST\<close> ends in
  \<open>EXTRA_REQUEST\<close>, not in \<open>NO_REQUEST\<close>.
\<close>

theorem updateIfNeeded_extra_counterexample:
  "updateIfNeeded \<lparr>model = 7::nat, state = EXTRA_REQUEST, outstanding = 0, drawn = [3]\<rparr>
     = \<lparr>model = 7, state = NO_REQUEST, outstanding = 0, drawn = [3]\<rparr>
   \<and> state (updateIfNeeded
        \<lparr>model = 7::nat, state = PENDING_REQUEST, outstanding = 0, drawn = [3]\<rparr>)
     = EXTRA_REQUEST"
  by (simp add: updateIfNeeded_def draw_def Browser_requestAnimationFrame_def)

text \<open>
  C1 (amended): when \<open>updateIfNeeded\<close> fires with the state equal to \<open>EXTRA_REQUEST\<close> it
  requests no animation frame, draws nothing and sets the state to \<open>NO_REQUEST\<close>; when it
  fires in any other state it requests one more animation frame, draws once with the latest
  stored model and sets the state to \<open>EXTRA_REQUEST\<close>. The stored model is never changed.
\<close>

theorem updateIfNeeded_transitions:
  "(state a = EXTRA_REQUEST \<longrightarrow>
      outstanding (updateIfNeeded a) = outstanding a
    \<and> drawn (updateIfNeeded a) = drawn a
    \<and> state (updateIfNeeded a) = NO_REQUEST)
   \<and> (state a \<noteq> EXTRA_REQUEST \<longrightarrow>
      outstanding (updateIfNeeded a) = Suc (outstanding a)
    \<and> drawn (updateIfNeeded a) = drawn a @ [model a]
    \<and> state (updateIfNeeded a) = EXTRA_REQUEST)
   \<and> model (updateIfNeeded a) = model a"
  by (simp add: updateIfNeeded_def draw_def Browser_requestAnimationFrame_def)

theorem updateIfNeeded_transitions_witness:
  "outstanding (updateIfNeeded
      \<lparr>model = 7::nat, state = EXTRA_REQUEST, outstanding = 0, drawn = [3]\<rparr>) = 0
   \<and> drawn (updateIfNeeded
      \<lparr>model = 7::nat, state = EXTRA_REQUEST, outstanding = 0, drawn = [3]\<rparr>) = [3]
   \<and> state (updateIfNeeded
      \<lparr>model = 7::nat, state = EXTRA_REQUEST, outstanding = 0, drawn = [3]\<rparr>) = NO_REQUEST
   \<and> outstanding (updateIfNeeded
      \<lparr>model = 7::nat, state = PENDING_REQUEST, outstanding = 0, drawn = [3]\<rparr>) = 1
   \<and> drawn (updateIfNeeded
      \<lparr>model = 7::nat, state = PENDING_REQUEST, outstanding = 0, drawn = [3]\<rparr>) = [3, 7]
   \<and> state (updateIfNeeded
      \<lparr>model = 7::nat, state = PENDING_REQUEST, outstanding = 0, drawn = [3]\<rparr>) = EXTRA_REQUEST"
  using updateIfNeeded_transitions
    [of "\<lparr>model = 7::nat, state = EXTRA_REQUEST, outstanding = 0, drawn = [3]\<rparr>"]
    updateIfNeeded_transitions
    [of "\<lparr>model = 7::nat, state = PENDING_REQUEST, outstanding = 0, drawn = [3]\<rparr>"]
  by simp

text \<open>
  C2, as the specification states it, fails on the code: an asynchronous notify on an
  animator in state \<open>EXTRA_REQUEST\<close> moves the state to \<open>PENDING_REQUEST\<close>.
\<close>

theorem notify_async_extra_counterexample:
  "state (notify (5::nat) False
      \<lparr>model = 7, state = EXTRA_REQUEST, outstanding = 1, drawn = [3, 7]\<rparr>)
     = PENDING_REQUEST"
  by (simp add: notify_def)

text \<open>
  C2 (amended): an asynchronous notify (\<open>isSync\<close> false) on an animator whose state is
  \<open>PENDING_REQUEST\<close> or \<open>EXTRA_REQUEST\<close> stores the new model and leaves the state at
  \<open>PENDING_REQUEST\<close> (so it changes the state from \<open>EXTRA_REQUEST\<close> to
  \<open>PENDING_REQUEST\<close>); it requests no animation frame, draws nothing and changes nothing
  else.
\<close>

theorem notify_async_pending:
  "state a = PENDING_REQUEST \<or> state a = EXTRA_REQUEST \<Longrightarrow>
   notify m False a = a\<lparr>model := m, state := PENDING_REQUEST\<rparr>
   \<and> outstanding (notify m False a) = outstanding a
   \<and> drawn (notify m False a) = drawn a"
  by (auto simp add: notify_def)

theorem notify_async_pending_witness:
  "notify (5::nat) False \<lparr>model = 7, state = EXTRA_REQUEST, outstanding = 1, drawn = [3, 7]\<rparr>
     = \<lparr>model = 5, state = PENDING_REQUEST, outstanding = 1, drawn = [3, 7]\<rparr>
   \<and> notify (5::nat) False \<lparr>model = 7, state = PENDING_REQUEST, outstanding = 1, drawn = [3]\<rparr>
     = \<lparr>model = 5, state = PENDING_REQUEST, outstanding = 1, drawn = [3]\<rparr>"
  using notify_async_pending
    [of "\<lparr>model = 7::nat, state = EXTRA_REQUEST, outstanding = 1, drawn = [3, 7]\<rparr>" 5]
    notify_async_pending
    [of "\<lparr>model = 7::nat, state = PENDING_REQUEST, outstanding = 1, drawn = [3]\<rparr>" 5]
  by simp

text \<open>
  C3: after every finite sequence of notify calls and frame-callback firings that starts at
  the construction of the animator, at most one requested animation-frame callback is
  outstanding. The sequence is arbitrary, so the bound holds after each of its prefixes,
  that is at every point of the run.
\<close>

theorem at_most_one_outstanding:
  "run es (Browser_makeAnimator m) = Some a \<Longrightarrow> outstanding a \<le> 1"
proof -
  assume "run es (Browser_makeAnimator m) = Some a"
  with coalesced_makeAnimator have "coalesced a" by (rule coalesced_run)
  then show "outstanding a \<le> 1" by (simp add: coalesced_def)
qed

theorem at_most_one_outstanding_witness:
  "run [Notify 1 False, Notify 2 True, Notify 3 False, Frame, Notify 4 False, Frame, Frame]
      (Browser_makeAnimator (0::nat))
     = Some \<lparr>model = 4, state = NO_REQUEST, outstanding = 0, drawn = [0, 2, 3, 4]\<rparr>
   \<and> outstanding \<lparr>model = 4::nat, state = NO_REQUEST, outstanding = 0, drawn = [0, 2, 3, 4]\<rparr> \<le> 1"
proof -
  have r: "run [Notify 1 False, Notify 2 True, Notify 3 False, Frame, Notify 4 False, Frame, Frame]
      (Browser_makeAnimator (0::nat))
     = Some \<lparr>model = 4, state = NO_REQUEST, outstanding = 0, drawn = [0, 2, 3, 4]\<rparr>"
    by (simp add: Browser_makeAnimator_def notify_def fire_def updateIfNeeded_def draw_def
        Browser_requestAnimationFrame_def)
  from at_most_one_outstanding [OF r] r show ?thesis by simp
qed

section \<open>Real navigation: \<open>_Browser_reload\<close> and \<open>_Browser_load\<close>\<close>

text \<open>
  Running the function given to \<open>__Scheduler_binding\<close> yields the list of what it does
  to the host, in order; \<open>Callback v\<close> is a call \<open>callback(v)\<close> of the completion
  callback of the binding.
\<close>

datatype js_error = NS_ERROR_MALFORMED_URI | TypeError

datatype resolution = Succeed_Tuple0 | Succeed_String string

datatype nav_effect =
    History_go int
  | Location_assign string
  | Location_reload bool
  | Callback resolution

fun is_Callback :: "nav_effect \<Rightarrow> bool" where
  "is_Callback (Callback v) = True"
| "is_Callback (History_go n) = False"
| "is_Callback (Location_assign url) = False"
| "is_Callback (Location_reload skipCache) = False"

definition invokes_callback :: "nav_effect list \<Rightarrow> bool" where
  "invokes_callback effs = list_ex is_Callback effs"

text \<open>
  \<open>window.location = url\<close>. Whether the host throws on a URL is the host's matter: the
  predicate \<open>malformed\<close> says for which URLs the assignment throws.
\<close>

definition location_assign :: "(string \<Rightarrow> bool) \<Rightarrow> string \<Rightarrow> js_error + nav_effect list" where
  "location_assign malformed url =
     (if malformed url then Inl NS_ERROR_MALFORMED_URI else Inr [Location_assign url])"

text \<open>\<open>if (n !== 0) { history.go(n); } callback(__Scheduler_succeed(__Utils_Tuple0));\<close>\<close>

definition Browser_go :: "int \<Rightarrow> nav_effect list" where
  "Browser_go n = (if n \<noteq> 0 then [History_go n] else []) @ [Callback Succeed_Tuple0]"

definition Browser_reload :: "bool \<Rightarrow> nav_effect list" where
  "Browser_reload skipCache = [Location_reload skipCache]"

text \<open>The \<open>try\<close> / \<open>catch\<close> of \<open>_Browser_load\<close>: the handler runs when the assignment throws.\<close>

definition Browser_load :: "(string \<Rightarrow> bool) \<Rightarrow> string \<Rightarrow> nav_effect list" where
  "Browser_load malformed url =
     (case location_assign malformed url of
        Inl err \<Rightarrow> [Location_reload False]
      | Inr effs \<Rightarrow> effs)"

text \<open>
  C5: when the location assignment of \<open>_Browser_load(url)\<close> throws, the exception is caught
  and the operation reloads the current page with \<open>skipCache = false\<close> instead; when it
  does not throw, the assignment is all the operation does. On neither path does the
  operation invoke its completion callback, and \<open>_Browser_reload\<close> never does either
  (unlike \<open>_Browser_go\<close>, which always does).
\<close>

theorem Browser_load_catches:
  "(malformed url \<longrightarrow> Browser_load malformed url = [Location_reload False])
   \<and> (\<not> malformed url \<longrightarrow> Browser_load malformed url = [Location_assign url])
   \<and> \<not> invokes_callback (Browser_load malformed url)
   \<and> \<not> invokes_callback (Browser_reload skipCache)
   \<and> invokes_callback (Browser_go n)"
  by (simp add: Browser_load_def location_assign_def Browser_reload_def Browser_go_def
      invokes_callback_def)

theorem Browser_load_catches_witness:
  "Browser_load (\<lambda>u. u = ''http://['') ''http://['' = [Location_reload False]
   \<and> Browser_load (\<lambda>u. u = ''http://['') ''/home'' = [Location_assign ''/home'']
   \<and> \<not> invokes_callback (Browser_load (\<lambda>u. u = ''http://['') ''/home'')"
  using Browser_load_catches [of "\<lambda>u. u = ''http://[''" "''http://[''" False 1]
    Browser_load_catches [of "\<lambda>u. u = ''http://[''" "''/home''" False 1]
  by (simp add: invokes_callback_def)

section \<open>Decoding events: \<open>_Browser_decodeEvent\<close>\<close>

text \<open>Elm's \<open>Result\<close>; \<open>Maybe\<close> is \<open>option\<close>.\<close>

datatype ('x, 'a) result = Err 'x | Ok 'a

text \<open>
  A raw host event: what the decoder reads, and how often its \<open>preventDefault\<close> hook has
  been invoked.
\<close>

record 'p raw_event =
  detail :: 'p
  preventDefault_calls :: nat

definition preventDefault :: "'p raw_event \<Rightarrow> 'p raw_event" where
  "preventDefault e = e\<lparr>preventDefault_calls := Suc (preventDefault_calls e)\<rparr>"

text \<open>
  \<open>__Json_runHelp(decoder, event)\<close> is not part of this file: a decoder is taken as the
  function from the event to its result. A successful result \<open>result.a\<close> is a pair of the
  message \<open>result.a.a\<close> and the suppress-default flag \<open>result.a.b\<close>.
\<close>

definition Browser_decodeEvent ::
  "('p raw_event \<Rightarrow> ('x, 'msg \<times> bool) result) \<Rightarrow> 'p raw_event \<Rightarrow> 'msg option \<times> 'p raw_event" where
  "Browser_decodeEvent decoder event =
     (case decoder event of
        Ok (msg, suppress) \<Rightarrow> (Some msg, if suppress then preventDefault event else event)
      | Err x \<Rightarrow> (None, event))"

text \<open>
  C7: \<open>_Browser_decodeEvent(decoder, event)\<close> returns \<open>Just\<close> the decoded message when the
  decoder succeeds and \<open>Nothing\<close> when it fails; it invokes \<open>preventDefault\<close> (once) if
  and only if the decoder succeeds with the suppress-default flag set, and otherwise leaves the
  event as it was; in particular a failing decode never invokes it.
\<close>

theorem Browser_decodeEvent_outcomes:
  "(\<forall>msg b. decoder event = Ok (msg, b) \<longrightarrow> fst (Browser_decodeEvent decoder event) = Some msg)
   \<and> (\<forall>x. decoder event = Err x \<longrightarrow> Browser_decodeEvent decoder event = (None, event))
   \<and> ((\<exists>msg. decoder event = Ok (msg, True)) \<longrightarrow>
        snd (Browser_decodeEvent decoder event) = preventDefault event)
   \<and> (\<not> (\<exists>msg. decoder event = Ok (msg, True)) \<longrightarrow>
        snd (Browser_decodeEvent decoder event) = event)
   \<and> ((preventDefault_calls (snd (Browser_decodeEvent decoder event))
          \<noteq> preventDefault_calls event)
        = (\<exists>msg. decoder event = Ok (msg, True)))"
  by (cases "decoder event")
     (auto simp add: Browser_decodeEvent_def preventDefault_def split: prod.splits)

theorem Browser_decodeEvent_outcomes_witness:
  "Browser_decodeEvent (\<lambda>e. if detail e = (0::nat) then Err ''no key'' else Ok (detail e, detail e = 13))
      \<lparr>detail = 13, preventDefault_calls = 0\<rparr>
     = (Some 13, \<lparr>detail = 13, preventDefault_calls = 1\<rparr>)
   \<and> Browser_decodeEvent (\<lambda>e. if detail e = (0::nat) then Err ''no key'' else Ok (detail e, detail e = 13))
      \<lparr>detail = 65, preventDefault_calls = 0\<rparr>
     = (Some 65, \<lparr>detail = 65, preventDefault_calls = 0\<rparr>)
   \<and> Browser_decodeEvent (\<lambda>e. if detail e = (0::nat) then Err ''no key'' else Ok (detail e, detail e = 13))
      \<lparr>detail = 0, preventDefault_calls = 0\<rparr>
     = (None, \<lparr>detail = 0, preventDefault_calls = 0\<rparr>)"
  using
    Browser_decodeEvent_outcomes
      [of "\<lambda>e. if detail e = (0::nat) then Err ''no key'' else Ok (detail e, detail e = 13)"
          "\<lparr>detail = 13, preventDefault_calls = 0\<rparr>"]
    Browser_decodeEvent_outcomes
      [of "\<lambda>e. if detail e = (0::nat) then Err ''no key'' else Ok (detail e, detail e = 13)"
          "\<lparr>detail = 65, preventDefault_calls = 0\<rparr>"]
    Browser_decodeEvent_outcomes
      [of "\<lambda>e. if detail e = (0::nat) then Err ''no key'' else Ok (detail e, detail e = 13)"
          "\<lparr>detail = 0, preventDefault_calls = 0\<rparr>"]
  by (auto simp add: prod_eq_iff preventDefault_def)

section \<open>Document mode: the draw function of \<open>_Browser_document\<close>\<close>

text \<open>
  The renderer (\<open>_VirtualDom_virtualize\<close>, \<open>__VirtualDom_node('body')(__List_Nil)\<close>,
  \<open>__VirtualDom_diff\<close>, \<open>__VirtualDom_applyPatches\<close>) is an external collaborator:
  its four functions are parameters, over any types of virtual nodes \<open>'v\<close>, patches
  \<open>'p\<close> and host nodes \<open>'d\<close>.
\<close>

record ('v, 'p, 'd) renderer =
  VirtualDom_virtualize :: "'d \<Rightarrow> 'v"
  VirtualDom_node_body :: "'v list \<Rightarrow> 'v"
  VirtualDom_diff :: "'v \<Rightarrow> 'v \<Rightarrow> 'p"
  VirtualDom_applyPatches :: "'d \<Rightarrow> 'v \<Rightarrow> 'p \<Rightarrow> 'd"

text \<open>What \<open>view(model)\<close> returns in document mode: a title and the children of the body.\<close>

record 'v page =
  page_title :: string
  page_body :: "'v list"

text \<open>
  The variables \<open>title\<close>, \<open>bodyNode\<close> and \<open>currNode\<close> of the closure, the host's
  \<open>__VirtualDom_doc.title\<close>, and the list of the values assigned to it, oldest first.
\<close>

record ('v, 'd) doc_state =
  title :: string
  bodyNode :: 'd
  currNode :: 'v
  VirtualDom_doc_title :: string
  title_writes :: "string list"

text \<open>
  \<open>var title = __VirtualDom_doc.title; var bodyNode = __VirtualDom_doc.body;
  var currNode = _VirtualDom_virtualize(bodyNode);\<close>
\<close>

definition document_setup :: "('v, 'p, 'd) renderer \<Rightarrow> string \<Rightarrow> 'd \<Rightarrow> ('v, 'd) doc_state" where
  "document_setup r host_title host_body =
     \<lparr>title = host_title, bodyNode = host_body,
      currNode = VirtualDom_virtualize r host_body,
      VirtualDom_doc_title = host_title, title_writes = []\<rparr>"

text \<open>The draw function handed to \<open>_Browser_makeAnimator\<close>.\<close>

definition document_draw ::
  "('v, 'p, 'd) renderer \<Rightarrow> ('m \<Rightarrow> 'v page) \<Rightarrow> 'm \<Rightarrow> ('v, 'd) doc_state \<Rightarrow> ('v, 'd) doc_state" where
  "document_draw r view m s =
     (let doc = view m;
          nextNode = VirtualDom_node_body r (page_body doc);
          patches = VirtualDom_diff r (currNode s) nextNode;
          s1 = s\<lparr>bodyNode := VirtualDom_applyPatches r (bodyNode s) (currNode s) patches\<rparr>;
          s2 = s1\<lparr>currNode := nextNode\<rparr>
      in if title s2 \<noteq> page_title doc
         then s2\<lparr>title := page_title doc,
                 VirtualDom_doc_title := page_title doc,
                 title_writes := title_writes s2 @ [page_title doc]\<rparr>
         else s2)"

text \<open>The draws of a run, one per model, in order.\<close>

fun document_draws ::
  "('v, 'p, 'd) renderer \<Rightarrow> ('m \<Rightarrow> 'v page) \<Rightarrow> 'm list \<Rightarrow> ('v, 'd) doc_state \<Rightarrow> ('v, 'd) doc_state" where
  "document_draws r view [] s = s"
| "document_draws r view (m # ms) s = document_draws r view ms (document_draw r view m s)"

text \<open>The title most recently written, or the one read at startup when none was written yet.\<close>

definition latest_title :: "string \<Rightarrow> ('v, 'd) doc_state \<Rightarrow> string" where
  "latest_title startup s = last (startup # title_writes s)"

lemma latest_title_setup: "latest_title t (document_setup r t b) = t"
  by (simp add: latest_title_def document_setup_def)

lemma title_tracks_draw:
  "title s = latest_title t s \<Longrightarrow> title (document_draw r view m s) = latest_title t (document_draw r view m s)"
  by (simp add: document_draw_def latest_title_def Let_def)

lemma title_tracks_draws:
  "title s = latest_title t s \<Longrightarrow> title (document_draws r view ms s) = latest_title t (document_draws r view ms s)"
  by (induction ms arbitrary: s) (simp_all add: title_tracks_draw)

lemma title_tracks_run:
  "title (document_draws r view ms (document_setup r t b))
     = latest_title t (document_draws r view ms (document_setup r t b))"
  by (rule title_tracks_draws) (simp add: latest_title_def document_setup_def)

text \<open>
  C9: let \<open>s\<close> be the state of document mode after any number of draws from startup, where
  the host's title was \<open>t\<close>. A further draw of model \<open>m\<close> assigns the host's title (once,
  with the newly rendered title) when the rendered title differs from the title most recently
  written, or from \<open>t\<close> when none was written yet; when the two are equal it assigns nothing
  to the title. In both cases the body is patched: \<open>bodyNode\<close> becomes the result of
  \<open>applyPatches\<close> on the difference between the current and the newly rendered tree, and
  the new tree becomes the current one.
\<close>

theorem document_title_written_on_change:
  "title_writes (document_draw r view m (document_draws r view ms (document_setup r t b)))
     = (if page_title (view m) = latest_title t (document_draws r view ms (document_setup r t b))
        then title_writes (document_draws r view ms (document_setup r t b))
        else title_writes (document_draws r view ms (document_setup r t b)) @ [page_title (view m)])
   \<and> VirtualDom_doc_title (document_draw r view m (document_draws r view ms (document_setup r t b)))
     = (if page_title (view m) = latest_title t (document_draws r view ms (document_setup r t b))
        then VirtualDom_doc_title (document_draws r view ms (document_setup r t b))
        else page_title (view m))
   \<and> bodyNode (document_draw r view m (document_draws r view ms (document_setup r t b)))
     = VirtualDom_applyPatches r
         (bodyNode (document_draws r view ms (document_setup r t b)))
         (currNode (document_draws r view ms (document_setup r t b)))
         (VirtualDom_diff r (currNode (document_draws r view ms (document_setup r t b)))
            (VirtualDom_node_body r (page_body (view m))))
   \<and> currNode (document_draw r view m (document_draws r view ms (document_setup r t b)))
     = VirtualDom_node_body r (page_body (view m))"
proof -
  define s where "s = document_draws r view ms (document_setup r t b)"
  have "title s = latest_title t s"
    unfolding s_def by (rule title_tracks_run)
  then show ?thesis
    unfolding s_def [symmetric] by (auto simp add: document_draw_def Let_def)
qed

theorem document_title_written_on_change_witness:
  "title_writes (document_draw
      \<lparr>VirtualDom_virtualize = (\<lambda>d. d), VirtualDom_node_body = sum_list,
        VirtualDom_diff = (\<lambda>old new. new), VirtualDom_applyPatches = (\<lambda>d old p. p)\<rparr>
      (\<lambda>m. \<lparr>page_title = (if m < 2 then ''Home'' else ''About''), page_body = [m, 1]\<rparr>) (2::nat)
      (document_draws
         \<lparr>VirtualDom_virtualize = (\<lambda>d. d), VirtualDom_node_body = sum_list,
           VirtualDom_diff = (\<lambda>old new. new), VirtualDom_applyPatches = (\<lambda>d old p. p)\<rparr>
         (\<lambda>m. \<lparr>page_title = (if m < 2 then ''Home'' else ''About''), page_body = [m, 1]\<rparr>)
         [0, 1]
         (document_setup
            \<lparr>VirtualDom_virtualize = (\<lambda>d. d), VirtualDom_node_body = sum_list,
              VirtualDom_diff = (\<lambda>old new. new), VirtualDom_applyPatches = (\<lambda>d old p. p)\<rparr>
            ''Home'' 0)))
     = [''About'']
   \<and> document_draws
         \<lparr>VirtualDom_virtualize = (\<lambda>d. d), VirtualDom_node_body = sum_list,
           VirtualDom_diff = (\<lambda>old new. new), VirtualDom_applyPatches = (\<lambda>d old p. p)\<rparr>
         (\<lambda>m. \<lparr>page_title = (if m < 2 then ''Home'' else ''About''), page_body = [m, 1]\<rparr>)
         [0, 1::nat]
         (document_setup
            \<lparr>VirtualDom_virtualize = (\<lambda>d. d), VirtualDom_node_body = sum_list,
              VirtualDom_diff = (\<lambda>old new. new), VirtualDom_applyPatches = (\<lambda>d old p. p)\<rparr>
            ''Home'' 0)
     = \<lparr>title = ''Home'', bodyNode = 2, currNode = 2, VirtualDom_doc_title = ''Home'',
        title_writes = []\<rparr>"
proof -
  have before: "document_draws
         \<lparr>VirtualDom_virtualize = (\<lambda>d. d), VirtualDom_node_body = sum_list,
           VirtualDom_diff = (\<lambda>old new. new), VirtualDom_applyPatches = (\<lambda>d old p. p)\<rparr>
         (\<lambda>m. \<lparr>page_title = (if m < 2 then ''Home'' else ''About''), page_body = [m, 1]\<rparr>)
         [0, 1::nat]
         (document_setup
            \<lparr>VirtualDom_virtualize = (\<lambda>d. d), VirtualDom_node_body = sum_list,
              VirtualDom_diff = (\<lambda>old new. new), VirtualDom_applyPatches = (\<lambda>d old p. p)\<rparr>
            ''Home'' 0)
     = \<lparr>title = ''Home'', bodyNode = 2, currNode = 2, VirtualDom_doc_title = ''Home'',
        title_writes = []\<rparr>"
    by (simp add: document_setup_def document_draw_def)
  from document_title_written_on_change
    [of "\<lparr>VirtualDom_virtualize = (\<lambda>d. d), VirtualDom_node_body = sum_list,
           VirtualDom_diff = (\<lambda>old new. new), VirtualDom_applyPatches = (\<lambda>d old p. p)\<rparr>"
        "\<lambda>m. \<lparr>page_title = (if m < 2 then ''Home'' else ''About''), page_body = [m, 1]\<rparr>"
        "2::nat" "[0, 1]" "''Home''" 0]
    before
  show ?thesis by (simp add: latest_title_def)
qed

section \<open>DOM queries: \<open>_Browser_withNode\<close> and scrolling\<close>

text \<open>
  \<open>__Dom_NotFound(id)\<close>, and the two ways a task resolves: \<open>__Scheduler_succeed(v)\<close>
  and \<open>__Scheduler_fail(x)\<close>.
\<close>

datatype dom_error = NotFound string

datatype ('x, 'a) resolved = Succeed 'a | Fail 'x

text \<open>
  A node is read and written through its properties, by name (\<open>node[scroll]\<close>); the type
  \<open>'n\<close> of the numbers is left open. \<open>elements\<close> is \<open>document.getElementById\<close>:
  \<open>None\<close> is \<open>null\<close>. \<open>frame_callbacks\<close> holds the functions handed to
  \<open>_Browser_requestAnimationFrame\<close> and not fired yet, oldest first; each of them, run on
  the elements of its tick, passes one resolution to the completion callback of its binding and
  may change the node it found. \<open>completed\<close> lists the resolutions passed so far.
\<close>

record ('n, 'a) page_host =
  elements :: "string \<rightharpoonup> (string \<Rightarrow> 'n)"
  frame_callbacks ::
    "((string \<rightharpoonup> (string \<Rightarrow> 'n)) \<Rightarrow> (dom_error, 'a) resolved \<times> (string \<rightharpoonup> (string \<Rightarrow> 'n))) list"
  completed :: "(dom_error, 'a) resolved list"

text \<open>
  The function \<open>_Browser_withNode\<close> hands to \<open>_Browser_requestAnimationFrame\<close>.
  \<open>doStuff\<close> returns its value and the node as it leaves it.
\<close>

definition withNode_callback ::
  "string \<Rightarrow> ((string \<Rightarrow> 'n) \<Rightarrow> 'a \<times> (string \<Rightarrow> 'n)) \<Rightarrow> (string \<rightharpoonup> (string \<Rightarrow> 'n))
     \<Rightarrow> (dom_error, 'a) resolved \<times> (string \<rightharpoonup> (string \<Rightarrow> 'n))" where
  "withNode_callback ident doStuff els =
     (case els ident of
        Some node \<Rightarrow> (case doStuff node of (v, node') \<Rightarrow> (Succeed v, els(ident \<mapsto> node')))
      | None \<Rightarrow> (Fail (NotFound ident), els))"

text \<open>Running the binding of \<open>_Browser_withNode(id, doStuff)\<close>: it only requests a frame.\<close>

definition Browser_withNode ::
  "string \<Rightarrow> ((string \<Rightarrow> 'n) \<Rightarrow> 'a \<times> (string \<Rightarrow> 'n)) \<Rightarrow> ('n, 'a) page_host \<Rightarrow> ('n, 'a) page_host" where
  "Browser_withNode ident doStuff h =
     h\<lparr>frame_callbacks := frame_callbacks h @ [withNode_callback ident doStuff]\<rparr>"

text \<open>
  One requested callback runs: it reads the elements as they are at that moment, passes its
  resolution to the completion callback and leaves the elements as it changed them.
\<close>

definition fire_callback ::
  "((string \<rightharpoonup> (string \<Rightarrow> 'n)) \<Rightarrow> (dom_error, 'a) resolved \<times> (string \<rightharpoonup> (string \<Rightarrow> 'n)))
     \<Rightarrow> ('n, 'a) page_host \<Rightarrow> ('n, 'a) page_host" where
  "fire_callback cb h =
     (case cb (elements h) of
        (res, els) \<Rightarrow> h\<lparr>elements := els, completed := completed h @ [res]\<rparr>)"

text \<open>
  The host's next animation-frame tick runs every callback requested before it, oldest first,
  each on the elements as the callbacks before it left them; none of them stays requested.
\<close>

definition animation_frame :: "('n, 'a) page_host \<Rightarrow> ('n, 'a) page_host" where
  "animation_frame h =
     foldl (\<lambda>h' cb. fire_callback cb h') (h\<lparr>frame_callbacks := []\<rparr>) (frame_callbacks h)"


definition Browser_getScroll :: "string \<Rightarrow> ('n, 'n \<times> 'n) page_host \<Rightarrow> ('n, 'n \<times> 'n) page_host" where
  "Browser_getScroll ident =
     Browser_withNode ident (\<lambda>node. ((node ''scrollLeft'', node ''scrollTop''), node))"



lemma fired_callbacks_keep_requests:
  "frame_callbacks (foldl (\<lambda>h' cb. fire_callback cb h') h cbs) = frame_callbacks h"
  by (induction cbs arbitrary: h) (simp_all add: fire_callback_def split: prod.splits)

lemma animation_frame_clears: "frame_callbacks (animation_frame h) = []"
  by (simp add: animation_frame_def fired_callbacks_keep_requests)

lemma animation_frame_latest_request:
  "animation_frame (h\<lparr>frame_callbacks := frame_callbacks h @ [cb]\<rparr>)
     = fire_callback cb (animation_frame h)"
  by (simp add: animation_frame_def)

lemma animation_frame_withNode:
  "animation_frame ((Browser_withNode ident f h)\<lparr>elements := els\<rparr>)
     = fire_callback (withNode_callback ident f) (animation_frame (h\<lparr>elements := els\<rparr>))"
proof -
  have "(Browser_withNode ident f h)\<lparr>elements := els\<rparr>
      = (h\<lparr>elements := els\<rparr>)\<lparr>frame_callbacks :=
          frame_callbacks (h\<lparr>elements := els\<rparr>) @ [withNode_callback ident f]\<rparr>"
    by (simp add: Browser_withNode_def)
  then show ?thesis by (simp only: animation_frame_latest_request)
qed

text \<open>
  C6: running \<open>_Browser_withNode(id, f)\<close> resolves nothing and leaves the elements alone: it
  only adds one request for an animation frame to those already pending, whatever they are.
  The next animation-frame tick runs the lookup, after the callbacks requested before it, and
  no request is left pending. The lookup is made in the elements present at that moment of the
  tick (the elements \<open>els\<close> the host has when the tick starts, as the older callbacks of the
  tick leave them), whatever the elements were when the operation started: if they have a node
  with identifier \<open>id\<close>, the operation succeeds with the value of \<open>f\<close> on that node; if
  they have none, it fails with \<open>NotFound id\<close>. In both cases this is the one resolution
  the operation adds to those of the older callbacks.
\<close>

theorem Browser_withNode_on_next_frame:
  "completed (Browser_withNode ident f h) = completed h
   \<and> elements (Browser_withNode ident f h) = elements h
   \<and> length (frame_callbacks (Browser_withNode ident f h)) = Suc (length (frame_callbacks h))
   \<and> frame_callbacks (animation_frame ((Browser_withNode ident f h)\<lparr>elements := els\<rparr>)) = []
   \<and> (\<forall>node. elements (animation_frame (h\<lparr>elements := els\<rparr>)) ident = Some node \<longrightarrow>
        completed (animation_frame ((Browser_withNode ident f h)\<lparr>elements := els\<rparr>))
          = completed (animation_frame (h\<lparr>elements := els\<rparr>)) @ [Succeed (fst (f node))])
   \<and> (elements (animation_frame (h\<lparr>elements := els\<rparr>)) ident = None \<longrightarrow>
        completed (animation_frame ((Browser_withNode ident f h)\<lparr>elements := els\<rparr>))
          = completed (animation_frame (h\<lparr>elements := els\<rparr>)) @ [Fail (NotFound ident)])"
proof -
  have scheduled: "completed (Browser_withNode ident f h) = completed h
      \<and> elements (Browser_withNode ident f h) = elements h
      \<and> length (frame_callbacks (Browser_withNode ident f h)) = Suc (length (frame_callbacks h))"
    by (simp add: Browser_withNode_def)
  have cleared: "frame_callbacks (animation_frame ((Browser_withNode ident f h)\<lparr>elements := els\<rparr>)) = []"
    by (rule animation_frame_clears)
  have found: "\<forall>node. elements (animation_frame (h\<lparr>elements := els\<rparr>)) ident = Some node \<longrightarrow>
        completed (animation_frame ((Browser_withNode ident f h)\<lparr>elements := els\<rparr>))
          = completed (animation_frame (h\<lparr>elements := els\<rparr>)) @ [Succeed (fst (f node))]"
    by (simp add: animation_frame_withNode fire_callback_def withNode_callback_def
        split: prod.splits)
  have missing: "elements (animation_frame (h\<lparr>elements := els\<rparr>)) ident = None \<longrightarrow>
        completed (animation_frame ((Browser_withNode ident f h)\<lparr>elements := els\<rparr>))
          = completed (animation_frame (h\<lparr>elements := els\<rparr>)) @ [Fail (NotFound ident)]"
    by (simp add: animation_frame_withNode fire_callback_def withNode_callback_def)
  from scheduled cleared found missing show ?thesis by blast
qed

theorem Browser_withNode_on_next_frame_witness:
  "completed (Browser_withNode ''box'' (\<lambda>node. (node ''scrollTop'', node))
      \<lparr>elements = Map.empty,
        frame_callbacks =
          [withNode_callback ''box'' (\<lambda>node. (0::int, node(''scrollTop'' := 9)))],
        completed = []\<rparr>) = []
   \<and> completed (animation_frame
        ((Browser_withNode ''box'' (\<lambda>node. (node ''scrollTop'', node))
            \<lparr>elements = Map.empty,
              frame_callbacks =
                [withNode_callback ''box'' (\<lambda>node. (0::int, node(''scrollTop'' := 9)))],
              completed = []\<rparr>)
         \<lparr>elements := [''box'' \<mapsto> (\<lambda>p. 4::int)]\<rparr>))
     = [Succeed 0, Succeed 9]
   \<and> completed (animation_frame
        ((Browser_withNode ''missing-id'' (\<lambda>node. (node ''scrollTop'', node))
            \<lparr>elements = Map.empty,
              frame_callbacks =
                [withNode_callback ''box'' (\<lambda>node. (0::int, node(''scrollTop'' := 9)))],
              completed = []\<rparr>)
         \<lparr>elements := [''box'' \<mapsto> (\<lambda>p. 4::int)]\<rparr>))
     = [Succeed 0, Fail (NotFound ''missing-id'')]"
proof -
  let ?busy = "\<lparr>elements = Map.empty,
      frame_callbacks = [withNode_callback ''box'' (\<lambda>node. (0::int, node(''scrollTop'' := 9)))],
      completed = ([] :: (dom_error, int) resolved list)\<rparr>"
  from Browser_withNode_on_next_frame
      [of "''box''" "\<lambda>node. (node ''scrollTop'', node)" ?busy "[''box'' \<mapsto> (\<lambda>p. 4::int)]"]
    Browser_withNode_on_next_frame
      [of "''missing-id''" "\<lambda>node. (node ''scrollTop'', node)" ?busy "[''box'' \<mapsto> (\<lambda>p. 4::int)]"]
  show ?thesis
    by (simp add: animation_frame_def fire_callback_def withNode_callback_def
        Browser_withNode_def)
qed



section \<open>Global events: \<open>_Browser_on\<close>\<close>

text \<open>
  What the parameter \<open>node\<close> of \<open>_Browser_on\<close> can be: an event target of the host
  (numbered), the object \<open>_Browser_fakeNode\<close>, or \<open>undefined\<close>, on which a method call
  throws a \<open>TypeError\<close>.
\<close>

datatype node_ref = Undefined | Fake_node | Host_node nat

text \<open>
  The third argument of \<open>addEventListener\<close> / \<open>removeEventListener\<close>: left out, a
  boolean, or an object \<open>{ passive: p }\<close>. The host reads a capture flag from it: the
  boolean itself, and false when the argument is left out or is an object without
  \<open>capture\<close>.
\<close>

datatype listener_options = Omitted | Flag bool | Passive bool

fun capture_of :: "listener_options \<Rightarrow> bool" where
  "capture_of Omitted = False"
| "capture_of (Flag b) = b"
| "capture_of (Passive p) = False"

fun passive_of :: "listener_options \<Rightarrow> bool option" where
  "passive_of Omitted = None"
| "passive_of (Flag b) = None"
| "passive_of (Passive p) = Some p"

text \<open>
  A registered listener. A function object has an identity (a number): two runs of
  \<open>_Browser_on\<close> create two different \<open>handler\<close> functions, also for the same
  \<open>sendToSelf\<close>. \<open>listener_sendToSelf\<close> is the \<open>sendToSelf\<close> the handler closes
  over.
\<close>

record ('e, 't) listener =
  listener_target :: nat
  listener_type :: string
  listener_handler :: nat
  listener_sendToSelf :: "'e \<Rightarrow> 't"
  listener_capture :: bool
  listener_passive :: "bool option"

datatype dom_call =
    AddEventListener node_ref string nat listener_options
  | RemoveEventListener node_ref string nat listener_options

text \<open>
  The host: its registered listeners in order of registration, the identity the next created
  function gets, and the method calls made on nodes so far.
\<close>

record ('e, 't) event_host =
  listeners :: "('e, 't) listener list"
  next_function :: nat
  calls :: "dom_call list"

text \<open>The host matches listeners on target, event type, callback and capture flag.\<close>

definition same_listener :: "nat \<Rightarrow> string \<Rightarrow> nat \<Rightarrow> bool \<Rightarrow> ('e, 't) listener \<Rightarrow> bool" where
  "same_listener n t h c l =
     (listener_target l = n \<and> listener_type l = t \<and> listener_handler l = h \<and> listener_capture l = c)"

text \<open>
  \<open>node.addEventListener(eventName, handler, options)\<close>: a \<open>TypeError\<close> on
  \<open>undefined\<close>, \<open>function() {}\<close> on the fake node, and on a host node the registration,
  unless the same listener is registered already.
\<close>

definition addEventListener ::
  "node_ref \<Rightarrow> string \<Rightarrow> nat \<Rightarrow> ('e \<Rightarrow> 't) \<Rightarrow> listener_options \<Rightarrow> ('e, 't) event_host
     \<Rightarrow> js_error + ('e, 't) event_host" where
  "addEventListener node t h send opts w =
     (case node of
        Undefined \<Rightarrow> Inl TypeError
      | Fake_node \<Rightarrow> Inr (w\<lparr>calls := calls w @ [AddEventListener node t h opts]\<rparr>)
      | Host_node n \<Rightarrow>
          Inr (w\<lparr>listeners :=
                   (if list_ex (same_listener n t h (capture_of opts)) (listeners w)
                    then listeners w
                    else listeners w @
                      [\<lparr>listener_target = n, listener_type = t, listener_handler = h,
                        listener_sendToSelf = send, listener_capture = capture_of opts,
                        listener_passive = passive_of opts\<rparr>]),
                 calls := calls w @ [AddEventListener node t h opts]\<rparr>))"

definition removeEventListener ::
  "node_ref \<Rightarrow> string \<Rightarrow> nat \<Rightarrow> listener_options \<Rightarrow> ('e, 't) event_host
     \<Rightarrow> js_error + ('e, 't) event_host" where
  "removeEventListener node t h opts w =
     (case node of
        Undefined \<Rightarrow> Inl TypeError
      | Fake_node \<Rightarrow> Inr (w\<lparr>calls := calls w @ [RemoveEventListener node t h opts]\<rparr>)
      | Host_node n \<Rightarrow>
          Inr (w\<lparr>listeners :=
                   filter (\<lambda>l. \<not> same_listener n t h (capture_of opts) l) (listeners w),
                 calls := calls w @ [RemoveEventListener node t h opts]\<rparr>))"

text \<open>
  The host delivers an event of type \<open>t\<close> at target \<open>n\<close>: each listener registered
  there for \<open>t\<close> runs \<open>__Scheduler_rawSpawn(sendToSelf(event))\<close>. The result lists the
  tasks spawned.
\<close>

definition dispatch :: "nat \<Rightarrow> string \<Rightarrow> 'e \<Rightarrow> ('e, 't) event_host \<Rightarrow> 't list" where
  "dispatch n t ev w =
     map (\<lambda>l. listener_sendToSelf l ev)
       (filter (\<lambda>l. listener_target l = n \<and> listener_type l = t) (listeners w))"

text \<open>
  The function returned by the binding of \<open>_Browser_on\<close> closes over \<open>node\<close>,
  \<open>eventName\<close> and \<open>handler\<close>: a subscription is that environment, and
  \<open>teardown\<close> is the body of the function.
\<close>

record subscription =
  sub_node :: node_ref
  sub_eventName :: string
  sub_handler :: nat

text \<open>
  Running the binding of \<open>_Browser_on(node, passive, eventName, sendToSelf)\<close>.
  \<open>__VirtualDom_passiveSupported\<close> belongs to the renderer and is a parameter;
  \<open>__VirtualDom_passiveSupported && { passive: passive }\<close> is \<open>false\<close> when it is false.
\<close>

definition Browser_on ::
  "bool \<Rightarrow> node_ref \<Rightarrow> bool \<Rightarrow> string \<Rightarrow> ('e \<Rightarrow> 't) \<Rightarrow> ('e, 't) event_host
     \<Rightarrow> js_error + (subscription \<times> ('e, 't) event_host)" where
  "Browser_on passiveSupported node passive eventName sendToSelf w =
     (let handler = next_function w;
          w1 = w\<lparr>next_function := Suc handler\<rparr>;
          options = (if passiveSupported then Passive passive else Flag False)
      in case addEventListener node eventName handler sendToSelf options w1 of
           Inl err \<Rightarrow> Inl err
         | Inr w2 \<Rightarrow>
             Inr (\<lparr>sub_node = node, sub_eventName = eventName, sub_handler = handler\<rparr>, w2))"

definition teardown :: "subscription \<Rightarrow> ('e, 't) event_host \<Rightarrow> js_error + ('e, 't) event_host" where
  "teardown sub w = removeEventListener (sub_node sub) (sub_eventName sub) (sub_handler sub) Omitted w"

text \<open>
  The globals \<open>document\<close> and \<open>window\<close>: \<open>None\<close> where \<open>typeof\<close> gives
  \<open>'undefined'\<close>.
\<close>

record globals =
  global_document :: "nat option"
  global_window :: "nat option"

definition Browser_fakeNode :: node_ref where
  "Browser_fakeNode = Fake_node"

definition Browser_doc :: "globals \<Rightarrow> node_ref" where
  "Browser_doc g = (case global_document g of Some d \<Rightarrow> Host_node d | None \<Rightarrow> Browser_fakeNode)"

definition Browser_window :: "globals \<Rightarrow> node_ref" where
  "Browser_window g = (case global_window g of Some d \<Rightarrow> Host_node d | None \<Rightarrow> Browser_fakeNode)"

text \<open>Every registered handler was created before: the next function is a new one.\<close>

definition fresh_functions :: "('e, 't) event_host \<Rightarrow> bool" where
  "fresh_functions w = list_all (\<lambda>l. listener_handler l < next_function w) (listeners w)"

lemma fresh_not_registered:
  "fresh_functions w \<Longrightarrow> \<not> list_ex (same_listener n t (next_function w) c) (listeners w)"
  by (auto simp add: fresh_functions_def list_all_iff list_ex_iff same_listener_def)

lemma fresh_filter_keeps:
  "fresh_functions w \<Longrightarrow>
   filter (\<lambda>l. \<not> same_listener n t (next_function w) c l) (listeners w) = listeners w"
  by (rule filter_True) (auto simp add: fresh_functions_def list_all_iff same_listener_def)

lemma fresh_functions_Browser_on:
  "fresh_functions w \<Longrightarrow> Browser_on ps node passive t send w = Inr (sub, w') \<Longrightarrow> fresh_functions w'"
  by (cases node)
     (auto simp add: Browser_on_def addEventListener_def fresh_functions_def list_all_iff Let_def
        less_Suc_eq split: if_splits)

lemma fresh_functions_teardown:
  "fresh_functions w \<Longrightarrow> teardown sub w = Inr w' \<Longrightarrow> fresh_functions w'"
  by (cases "sub_node sub")
     (auto simp add: teardown_def removeEventListener_def fresh_functions_def list_all_iff)

lemma Browser_on_undefined_throws:
  "Browser_on ps Undefined passive t send w = Inl TypeError"
  by (simp add: Browser_on_def addEventListener_def)

lemma Browser_on_fake:
  "Browser_on ps Fake_node passive t send w =
     Inr (\<lparr>sub_node = Fake_node, sub_eventName = t, sub_handler = next_function w\<rparr>,
          w\<lparr>next_function := Suc (next_function w),
            calls := calls w @ [AddEventListener Fake_node t (next_function w)
              (if ps then Passive passive else Flag False)]\<rparr>)"
  by (simp add: Browser_on_def addEventListener_def Let_def)

lemma teardown_fake:
  "sub_node sub = Fake_node \<Longrightarrow>
   teardown sub u =
     Inr (u\<lparr>calls := calls u @
       [RemoveEventListener Fake_node (sub_eventName sub) (sub_handler sub) Omitted]\<rparr>)"
  by (simp add: teardown_def removeEventListener_def)

text \<open>
  C4, as the specification states it, fails on the code: where passive listeners are
  supported, \<open>addEventListener\<close> is called with the options \<open>{ passive: true }\<close> and the
  \<open>removeEventListener\<close> of the teardown is called with no third argument at all.
\<close>

theorem Browser_on_remove_options_counterexample:
  "Browser_on True (Host_node 0) True ''scroll'' (id :: nat \<Rightarrow> nat)
      \<lparr>listeners = [], next_function = 0, calls = []\<rparr>
     = Inr (\<lparr>sub_node = Host_node 0, sub_eventName = ''scroll'', sub_handler = 0\<rparr>,
            \<lparr>listeners =
               [\<lparr>listener_target = 0, listener_type = ''scroll'', listener_handler = 0,
                 listener_sendToSelf = id, listener_capture = False,
                 listener_passive = Some True\<rparr>],
              next_function = 1,
              calls = [AddEventListener (Host_node 0) ''scroll'' 0 (Passive True)]\<rparr>)
   \<and> teardown \<lparr>sub_node = Host_node 0, sub_eventName = ''scroll'', sub_handler = 0\<rparr>
        \<lparr>listeners =
           [\<lparr>listener_target = 0, listener_type = ''scroll'', listener_handler = 0,
             listener_sendToSelf = (id :: nat \<Rightarrow> nat), listener_capture = False,
             listener_passive = Some True\<rparr>],
          next_function = 1,
          calls = [AddEventListener (Host_node 0) ''scroll'' 0 (Passive True)]\<rparr>
     = Inr \<lparr>listeners = [], next_function = 1,
            calls = [AddEventListener (Host_node 0) ''scroll'' 0 (Passive True),
                     RemoveEventListener (Host_node 0) ''scroll'' 0 Omitted]\<rparr>
   \<and> Passive True \<noteq> Omitted"
  by (simp add: Browser_on_def addEventListener_def teardown_def removeEventListener_def
      same_listener_def)

text \<open>
  C4 (amended): for every subscription created by \<open>_Browser_on(node, passive, eventName,
  sendToSelf)\<close> on a host node, the \<open>removeEventListener\<close> call of the teardown passes the
  same node, event name and handler function as the \<open>addEventListener\<close> call, and no
  options argument; the capture flag the host reads from the arguments of the two calls is the
  same (false), and capture is the only flag the host matches listeners on. So the teardown
  removes exactly the listener the subscription added: the subscription appends one listener
  to those registered, and the teardown leaves the listeners registered before.
\<close>

theorem Browser_on_teardown_removes_added:
  "fresh_functions w \<Longrightarrow>
   Browser_on passiveSupported (Host_node n) passive eventName sendToSelf w = Inr (sub, w') \<Longrightarrow>
   calls w' = calls w @
       [AddEventListener (Host_node n) eventName (sub_handler sub)
          (if passiveSupported then Passive passive else Flag False)]
   \<and> map_sum id calls (teardown sub u) = Inr (calls u @
       [RemoveEventListener (Host_node n) eventName (sub_handler sub) Omitted])
   \<and> capture_of (if passiveSupported then Passive passive else Flag False) = capture_of Omitted
   \<and> listeners w' = listeners w @
       [\<lparr>listener_target = n, listener_type = eventName, listener_handler = sub_handler sub,
         listener_sendToSelf = sendToSelf, listener_capture = False,
         listener_passive = (if passiveSupported then Some passive else None)\<rparr>]
   \<and> map_sum id listeners (teardown sub w') = Inr (listeners w)"
proof -
  assume fresh: "fresh_functions w"
    and on: "Browser_on passiveSupported (Host_node n) passive eventName sendToSelf w = Inr (sub, w')"
  let ?h = "next_function w"
  let ?opts = "if passiveSupported then Passive passive else Flag False"
  have cap: "capture_of ?opts = False" by simp
  have new: "\<not> list_ex (same_listener n eventName ?h False) (listeners w)"
    using fresh by (rule fresh_not_registered)
  have keep: "filter (\<lambda>l. \<not> same_listener n eventName ?h False l) (listeners w) = listeners w"
    using fresh by (rule fresh_filter_keeps)
  from on have sub: "sub = \<lparr>sub_node = Host_node n, sub_eventName = eventName, sub_handler = ?h\<rparr>"
    by (simp add: Browser_on_def addEventListener_def Let_def)
  from on new have w': "w' = w\<lparr>next_function := Suc ?h,
      listeners := listeners w @
        [\<lparr>listener_target = n, listener_type = eventName, listener_handler = ?h,
          listener_sendToSelf = sendToSelf, listener_capture = False,
          listener_passive = passive_of ?opts\<rparr>],
      calls := calls w @ [AddEventListener (Host_node n) eventName ?h ?opts]\<rparr>"
    by (simp add: Browser_on_def addEventListener_def Let_def cap del: capture_of.simps)
  have c1: "calls w' = calls w @ [AddEventListener (Host_node n) eventName (sub_handler sub) ?opts]"
    by (simp add: w' sub)
  have c2: "map_sum id calls (teardown sub u) = Inr (calls u @
       [RemoveEventListener (Host_node n) eventName (sub_handler sub) Omitted])"
    by (simp add: sub teardown_def removeEventListener_def)
  have c3: "capture_of ?opts = capture_of Omitted" by simp
  have c4: "listeners w' = listeners w @
       [\<lparr>listener_target = n, listener_type = eventName, listener_handler = sub_handler sub,
         listener_sendToSelf = sendToSelf, listener_capture = False,
         listener_passive = (if passiveSupported then Some passive else None)\<rparr>]"
    by (simp add: w' sub)
  have added: "same_listener n eventName ?h False
       \<lparr>listener_target = n, listener_type = eventName, listener_handler = ?h,
         listener_sendToSelf = sendToSelf, listener_capture = False,
         listener_passive = passive_of ?opts\<rparr>"
    by (simp add: same_listener_def)
  have c5: "map_sum id listeners (teardown sub w') = Inr (listeners w)"
    by (simp add: w' sub teardown_def removeEventListener_def keep added)
  from c1 c2 c3 c4 c5 show ?thesis by blast
qed

theorem Browser_on_teardown_removes_added_witness:
  "fresh_functions
      \<lparr>listeners =
         [\<lparr>listener_target = 0, listener_type = ''scroll'', listener_handler = 0,
           listener_sendToSelf = (Suc :: nat \<Rightarrow> nat), listener_capture = False,
           listener_passive = None\<rparr>],
        next_function = 1, calls = []\<rparr>
   \<and> Browser_on True (Host_node 0) True ''scroll'' (id :: nat \<Rightarrow> nat)
        \<lparr>listeners =
           [\<lparr>listener_target = 0, listener_type = ''scroll'', listener_handler = 0,
             listener_sendToSelf = Suc, listener_capture = False, listener_passive = None\<rparr>],
          next_function = 1, calls = []\<rparr>
     = Inr (\<lparr>sub_node = Host_node 0, sub_eventName = ''scroll'', sub_handler = 1\<rparr>,
            \<lparr>listeners =
               [\<lparr>listener_target = 0, listener_type = ''scroll'', listener_handler = 0,
                 listener_sendToSelf = Suc, listener_capture = False, listener_passive = None\<rparr>,
                \<lparr>listener_target = 0, listener_type = ''scroll'', listener_handler = 1,
                 listener_sendToSelf = id, listener_capture = False,
                 listener_passive = Some True\<rparr>],
              next_function = 2,
              calls = [AddEventListener (Host_node 0) ''scroll'' 1 (Passive True)]\<rparr>)
   \<and> map_sum id listeners
        (teardown \<lparr>sub_node = Host_node 0, sub_eventName = ''scroll'', sub_handler = 1\<rparr>
           \<lparr>listeners =
              [\<lparr>listener_target = 0, listener_type = ''scroll'', listener_handler = 0,
                listener_sendToSelf = (Suc :: nat \<Rightarrow> nat), listener_capture = False,
                listener_passive = None\<rparr>,
               \<lparr>listener_target = 0, listener_type = ''scroll'', listener_handler = 1,
                listener_sendToSelf = id, listener_capture = False,
                listener_passive = Some True\<rparr>],
             next_function = 2,
             calls = [AddEventListener (Host_node 0) ''scroll'' 1 (Passive True)]\<rparr>)
     = Inr [\<lparr>listener_target = 0, listener_type = ''scroll'', listener_handler = 0,
             listener_sendToSelf = Suc, listener_capture = False, listener_passive = None\<rparr>]"
proof -
  let ?w = "\<lparr>listeners =
         [\<lparr>listener_target = 0, listener_type = ''scroll'', listener_handler = 0,
           listener_sendToSelf = (Suc :: nat \<Rightarrow> nat), listener_capture = False,
           listener_passive = None\<rparr>],
        next_function = 1, calls = []\<rparr>"
  have fresh: "fresh_functions ?w"
    by (simp add: fresh_functions_def)
  have on: "Browser_on True (Host_node 0) True ''scroll'' (id :: nat \<Rightarrow> nat) ?w
     = Inr (\<lparr>sub_node = Host_node 0, sub_eventName = ''scroll'', sub_handler = 1\<rparr>,
            \<lparr>listeners =
               [\<lparr>listener_target = 0, listener_type = ''scroll'', listener_handler = 0,
                 listener_sendToSelf = Suc, listener_capture = False, listener_passive = None\<rparr>,
                \<lparr>listener_target = 0, listener_type = ''scroll'', listener_handler = 1,
                 listener_sendToSelf = id, listener_capture = False,
                 listener_passive = Some True\<rparr>],
              next_function = 2,
              calls = [AddEventListener (Host_node 0) ''scroll'' 1 (Passive True)]\<rparr>)"
    by (simp add: Browser_on_def addEventListener_def same_listener_def)
  from Browser_on_teardown_removes_added [OF fresh on, of ?w] fresh on
  show ?thesis by simp
qed

text \<open>
  C10: where the global \<open>document\<close> (or \<open>window\<close>) is undefined, \<open>_Browser_doc\<close> (or
  \<open>_Browser_window\<close>) is the fake node. A subscription made by \<open>_Browser_on\<close> on it does
  not throw and registers nothing with the host, so every host event spawns exactly the tasks
  it spawned without the subscription (none, on a host with no other listener); cancelling it,
  at once or in any later state of the host, does not throw either and leaves the registered
  listeners as they are.
\<close>

theorem Browser_on_fake_node_silent:
  "(global_document g = None \<and> node = Browser_doc g)
     \<or> (global_window g = None \<and> node = Browser_window g) \<Longrightarrow>
   node = Browser_fakeNode
   \<and> (\<exists>sub w'.
         Browser_on passiveSupported node passive eventName sendToSelf w = Inr (sub, w')
       \<and> listeners w' = listeners w
       \<and> (\<forall>n t ev. dispatch n t ev w' = dispatch n t ev w)
       \<and> (listeners w = [] \<longrightarrow> (\<forall>n t ev. dispatch n t ev w' = []))
       \<and> (\<forall>u. \<exists>u'. teardown sub u = Inr u'
             \<and> listeners u' = listeners u
             \<and> (\<forall>n t ev. dispatch n t ev u' = dispatch n t ev u)))"
proof -
  assume "(global_document g = None \<and> node = Browser_doc g)
     \<or> (global_window g = None \<and> node = Browser_window g)"
  then have fake: "node = Fake_node"
    by (auto simp add: Browser_doc_def Browser_window_def Browser_fakeNode_def)
  let ?sub = "\<lparr>sub_node = Fake_node, sub_eventName = eventName, sub_handler = next_function w\<rparr>"
  let ?w' = "w\<lparr>next_function := Suc (next_function w),
      calls := calls w @ [AddEventListener Fake_node eventName (next_function w)
        (if passiveSupported then Passive passive else Flag False)]\<rparr>"
  have on: "Browser_on passiveSupported node passive eventName sendToSelf w = Inr (?sub, ?w')"
    by (simp add: fake Browser_on_fake)
  have same: "listeners ?w' = listeners w" by simp
  have heard: "\<forall>n t ev. dispatch n t ev ?w' = dispatch n t ev w"
    by (simp add: dispatch_def)
  have none: "listeners w = [] \<longrightarrow> (\<forall>n t ev. dispatch n t ev ?w' = [])"
    by (simp add: dispatch_def)
  have cancel: "\<forall>u. \<exists>u'. teardown ?sub u = Inr u'
             \<and> listeners u' = listeners u
             \<and> (\<forall>n t ev. dispatch n t ev u' = dispatch n t ev u)"
    by (simp add: teardown_fake dispatch_def)
  from on same heard none cancel
  have "\<exists>sub w'.
         Browser_on passiveSupported node passive eventName sendToSelf w = Inr (sub, w')
       \<and> listeners w' = listeners w
       \<and> (\<forall>n t ev. dispatch n t ev w' = dispatch n t ev w)
       \<and> (listeners w = [] \<longrightarrow> (\<forall>n t ev. dispatch n t ev w' = []))
       \<and> (\<forall>u. \<exists>u'. teardown sub u = Inr u'
             \<and> listeners u' = listeners u
             \<and> (\<forall>n t ev. dispatch n t ev u' = dispatch n t ev u))"
    by blast
  with fake show ?thesis by (simp add: Browser_fakeNode_def)
qed

theorem Browser_on_fake_node_silent_witness:
  "Browser_doc \<lparr>global_document = None, global_window = None\<rparr> = Browser_fakeNode
   \<and> Browser_on True (Browser_doc \<lparr>global_document = None, global_window = None\<rparr>) False
        ''visibilitychange'' (id :: nat \<Rightarrow> nat) \<lparr>listeners = [], next_function = 0, calls = []\<rparr>
     = Inr (\<lparr>sub_node = Fake_node, sub_eventName = ''visibilitychange'', sub_handler = 0\<rparr>,
            \<lparr>listeners = [], next_function = 1,
              calls = [AddEventListener Fake_node ''visibilitychange'' 0 (Passive False)]\<rparr>)
   \<and> dispatch 0 ''visibilitychange'' (5::nat)
        \<lparr>listeners = ([] :: (nat, nat) listener list), next_function = 1,
          calls = [AddEventListener Fake_node ''visibilitychange'' 0 (Passive False)]\<rparr> = []
   \<and> teardown \<lparr>sub_node = Fake_node, sub_eventName = ''visibilitychange'', sub_handler = 0\<rparr>
        \<lparr>listeners = ([] :: (nat, nat) listener list), next_function = 1,
          calls = [AddEventListener Fake_node ''visibilitychange'' 0 (Passive False)]\<rparr>
     = Inr \<lparr>listeners = [], next_function = 1,
            calls = [AddEventListener Fake_node ''visibilitychange'' 0 (Passive False),
                     RemoveEventListener Fake_node ''visibilitychange'' 0 Omitted]\<rparr>"
proof -
  have undefined_document:
    "(global_document \<lparr>global_document = None, global_window = None\<rparr> = None
        \<and> Browser_doc \<lparr>global_document = None, global_window = None\<rparr>
            = Browser_doc \<lparr>global_document = None, global_window = None\<rparr>)
     \<or> (global_window \<lparr>global_document = None, global_window = None\<rparr> = None
        \<and> Browser_doc \<lparr>global_document = None, global_window = None\<rparr>
            = Browser_window \<lparr>global_document = None, global_window = None\<rparr>)"
    by simp
  from Browser_on_fake_node_silent
    [OF undefined_document, of True False "''visibilitychange''" "id :: nat \<Rightarrow> nat"
       "\<lparr>listeners = [], next_function = 0, calls = []\<rparr>"]
  show ?thesis
    by (simp add: Browser_doc_def Browser_fakeNode_def Browser_on_def addEventListener_def
        teardown_def removeEventListener_def dispatch_def)
qed

end
